theory Spec2Isabelle
  imports Complex_Main "HOL-Library.Word" "HOL-Library.AList"
begin

section \<open>The shared HTTP client of \<^verbatim>\<open>src/lib/axios-client.ts\<close>\<close>

subsection \<open>JavaScript strings\<close>

text \<open>
  A JavaScript string is a sequence of UTF-16 code units. \<open>str\<close> embeds an ASCII
  literal of the source; the two literals of the source that contain characters
  beyond ASCII are written with their code units.
\<close>

type_synonym code_unit = "16 word"
type_synonym jsstring = "code_unit list"

definition str :: "string \<Rightarrow> jsstring" where
  "str s = map of_char s"

text \<open>
  \<^verbatim>\<open>String.prototype.trim\<close> removes, at both ends, the code points of the
  productions WhiteSpace (TAB, VT, FF, ZWNBSP and the category Zs) and LineTerminator
  (LF, CR, LS, PS) of ECMAScript. All of them lie in the basic plane, so each is one
  code unit.
\<close>

definition isWhiteSpace :: "code_unit \<Rightarrow> bool" where
  "isWhiteSpace c \<longleftrightarrow>
     c \<in> set [0x0009, 0x000B, 0x000C, 0xFEFF,
              0x0020, 0x00A0, 0x1680,
              0x2000, 0x2001, 0x2002, 0x2003, 0x2004, 0x2005,
              0x2006, 0x2007, 0x2008, 0x2009, 0x200A,
              0x202F, 0x205F, 0x3000]"

definition isLineTerminator :: "code_unit \<Rightarrow> bool" where
  "isLineTerminator c \<longleftrightarrow> c \<in> set [0x000A, 0x000D, 0x2028, 0x2029]"

text \<open>The code units that \<^verbatim>\<open>trim\<close> removes.\<close>

definition isTrimmed :: "code_unit \<Rightarrow> bool" where
  "isTrimmed c \<longleftrightarrow> isWhiteSpace c \<or> isLineTerminator c"

definition trimStart :: "jsstring \<Rightarrow> jsstring" where
  "trimStart s = dropWhile isTrimmed s"

definition trimEnd :: "jsstring \<Rightarrow> jsstring" where
  "trimEnd s = rev (dropWhile isTrimmed (rev s))"

definition trim :: "jsstring \<Rightarrow> jsstring" where
  "trim s = trimEnd (trimStart s)"

text \<open>
  \<^verbatim>\<open>s.startsWith(p)\<close>: the code units of \<open>s\<close> from position 0, as many as \<open>p\<close>
  has, are those of \<open>p\<close>.
\<close>

definition startsWith :: "jsstring \<Rightarrow> jsstring \<Rightarrow> bool" where
  "startsWith s p \<longleftrightarrow> take (length p) s = p"

text \<open>
  \<^verbatim>\<open>s.replace(/\/$/, '')\<close>: the regular expression has no flag, so \<^verbatim>\<open>$\<close> matches
  at the end of the input only, and the first (leftmost) match is replaced by the empty
  string. The scan goes over the start positions from the left; the pattern matches at
  a position when the code unit there is a slash and nothing follows it.
\<close>

definition slash :: code_unit where
  "slash = 0x002F"

fun replaceTrailingSlash :: "jsstring \<Rightarrow> jsstring" where
  "replaceTrailingSlash [] = []"
| "replaceTrailingSlash (c # cs) =
     (if c = slash \<and> cs = [] then [] else c # replaceTrailingSlash cs)"

subsection \<open>JavaScript values\<close>

text \<open>
  A JavaScript number is a double. The module only tests a number for truthiness and
  for \<^verbatim>\<open>=== 401\<close>, which do not tell \<open>+0\<close> from \<open>-0\<close>: a finite double is
  modelled by the rational it denotes.
\<close>

datatype jsnumber = NaN | PosInfinity | NegInfinity | Finite rat

text \<open>
  The values the module handles: the body of a response is whatever the server sent
  (parsed JSON, or text). \<open>JSObject\<close> is a plain object, as \<^verbatim>\<open>JSON.parse\<close> and an
  object literal make it: the list of its properties in their order, all of them own and
  enumerable. \<open>map_of\<close> reads the first entry of a name, \<open>AList.update\<close> writes it in
  place or appends it, as a property definition of an object literal does.
\<close>

datatype jsval =
    JSUndefined
  | JSNull
  | JSBoolean bool
  | JSNumber jsnumber
  | JSString jsstring
  | JSArray "jsval list"
  | JSObject "(jsstring \<times> jsval) list"

type_synonym jsobject = "(jsstring \<times> jsval) list"

fun ToBoolean :: "jsval \<Rightarrow> bool" where
  "ToBoolean JSUndefined = False"
| "ToBoolean JSNull = False"
| "ToBoolean (JSBoolean b) = b"
| "ToBoolean (JSNumber n) = (n \<noteq> NaN \<and> n \<noteq> Finite 0)"
| "ToBoolean (JSString s) = (s \<noteq> [])"
| "ToBoolean (JSArray _) = True"
| "ToBoolean (JSObject _) = True"

text \<open>\<^verbatim>\<open>a || b\<close>\<close>

definition logicalOr :: "jsval \<Rightarrow> jsval \<Rightarrow> jsval" where
  "logicalOr a b = (if ToBoolean a then a else b)"

text \<open>
  \<^verbatim>\<open>v === "..."\<close> and \<^verbatim>\<open>v === 401\<close>: strict equality with a string literal or with
  the literal of a finite number holds for that very string or number only.
\<close>

definition strictEqualsString :: "jsval \<Rightarrow> jsstring \<Rightarrow> bool" where
  "strictEqualsString v s \<longleftrightarrow> v = JSString s"

definition strictEqualsNumber :: "jsval \<Rightarrow> rat \<Rightarrow> bool" where
  "strictEqualsNumber v r \<longleftrightarrow> v = JSNumber (Finite r)"

text \<open>
  Reading a property. \<open>getOwn\<close> reads an object given by its properties; \<open>getV\<close>
  reads any value: \<^verbatim>\<open>undefined\<close> and \<^verbatim>\<open>null\<close> have no properties and the read throws
  a TypeError (\<open>None\<close>). The module reads the names \<^verbatim>\<open>response\<close>, \<^verbatim>\<open>message\<close>,
  \<^verbatim>\<open>data\<close>, \<^verbatim>\<open>status\<close> and \<^verbatim>\<open>errorCode\<close> only; none of them is a property of an
  array or of the prototype of a string, a number, a boolean or an object, where the
  read gives \<^verbatim>\<open>undefined\<close>.
\<close>

definition getOwn :: "jsobject \<Rightarrow> jsstring \<Rightarrow> jsval" where
  "getOwn ps k = (case map_of ps k of None \<Rightarrow> JSUndefined | Some v \<Rightarrow> v)"

fun getV :: "jsval \<Rightarrow> jsstring \<Rightarrow> jsval option" where
  "getV JSUndefined k = None"
| "getV JSNull k = None"
| "getV (JSObject ps) k = Some (getOwn ps k)"
| "getV (JSBoolean _) k = Some JSUndefined"
| "getV (JSNumber _) k = Some JSUndefined"
| "getV (JSString _) k = Some JSUndefined"
| "getV (JSArray _) k = Some JSUndefined"

text \<open>\<^verbatim>\<open>v?.k\<close>: \<^verbatim>\<open>undefined\<close> when \<open>v\<close> is \<^verbatim>\<open>undefined\<close> or \<^verbatim>\<open>null\<close>.\<close>

definition optionalGet :: "jsval \<Rightarrow> jsstring \<Rightarrow> jsval" where
  "optionalGet v k = (case getV v k of None \<Rightarrow> JSUndefined | Some x \<Rightarrow> x)"

subsection \<open>The environment and the browser\<close>

text \<open>
  \<^verbatim>\<open>import.meta.env\<close>: the build replaces \<^verbatim>\<open>VITE_API_BASE_URL\<close> by a string or
  by \<^verbatim>\<open>undefined\<close> (\<open>None\<close>), and \<^verbatim>\<open>PROD\<close> and \<^verbatim>\<open>DEV\<close> by booleans
  (\<open>PROD\<close> is taken by the notation of products in HOL, hence the suffix).
\<close>

record env =
  VITE_API_BASE_URL :: "jsstring option"
  PROD_flag :: bool
  DEV_flag :: bool

text \<open>
  What the module does to the browser: the calls of \<^verbatim>\<open>console.error\<close>, each with its
  arguments, and the assignments to \<^verbatim>\<open>window.location.href\<close>, each of which starts a
  navigation; both in the order they happened.
\<close>

record browser =
  console_error :: "jsval list list"
  location_href :: "jsstring list"

subsection \<open>Resolving the base URL\<close>

text \<open>
  The diagnostic of a production build without \<^verbatim>\<open>VITE_API_BASE_URL\<close>. It starts
  with U+274C and has two arrows U+2192.
\<close>

definition missingBaseURLMessage :: jsstring where
  "missingBaseURLMessage =
     [0x274C] @ str '' VITE_API_BASE_URL is not set in production environment!'' @ [0x000A] @
     str ''Please set it in your Vercel project settings:'' @ [0x000A] @
     str ''Settings '' @ [0x2192] @ str '' Environment Variables '' @ [0x2192] @
     str '' Add VITE_API_BASE_URL'' @ [0x000A] @
     str ''Example value: https://task-manager-l2ug.onrender.com/api''"

text \<open>
  \<open>getBaseURL\<close> reads the environment and may call \<^verbatim>\<open>console.error\<close>: it takes the
  browser before the call and returns the resolved URL with the browser after it.
  \<open>fallbackBaseURL\<close> is the code after the block of \<^verbatim>\<open>if (envURL)\<close>, which is reached
  when \<^verbatim>\<open>envURL\<close> is \<^verbatim>\<open>undefined\<close> or the empty string (the falsy strings of
  JavaScript).
\<close>

definition fallbackBaseURL :: "env \<Rightarrow> browser \<Rightarrow> jsstring \<times> browser" where
  "fallbackBaseURL e b =
     (if PROD_flag e
      then ([], b\<lparr>console_error := console_error b @ [[JSString missingBaseURLMessage]]\<rparr>)
      else (str ''http://localhost:4000/api'', b))"

definition getBaseURL :: "env \<Rightarrow> browser \<Rightarrow> jsstring \<times> browser" where
  "getBaseURL e b =
     (case VITE_API_BASE_URL e of
        None \<Rightarrow> fallbackBaseURL e b
      | Some envURL \<Rightarrow>
          if envURL = [] then fallbackBaseURL e b
          else
            (let trimmedURL = trim envURL in
             if startsWith trimmedURL (str ''http://'') \<or> startsWith trimmedURL (str ''https://'')
             then (replaceTrailingSlash trimmedURL, b)
             else
               (let protocol = (if PROD_flag e then str ''https://'' else str ''http://'')
                in (replaceTrailingSlash (protocol @ trimmedURL), b))))"

subsection \<open>The failure object\<close>

text \<open>
  The failure that axios hands to the second handler of the interceptor is an error
  object: an \<^verbatim>\<open>AxiosError\<close>, or any other instance of \<^verbatim>\<open>Error\<close>. It is not a plain
  object. Its own properties are listed in their order, each with its name, whether it
  is enumerable, and its value; \<open>inherited\<close> are the properties it finds along its
  prototype chain. (The \<^verbatim>\<open>message\<close> of \<^verbatim>\<open>new Error("boom")\<close> is own and not enumerable,
  its \<^verbatim>\<open>name\<close> is inherited.)
\<close>

record failure =
  own :: "(jsstring \<times> bool \<times> jsval) list"
  inherited :: jsobject

text \<open>
  \<^verbatim>\<open>error.k\<close> reads an own property, enumerable or not, and otherwise goes to the
  prototype chain; a name found nowhere reads as \<^verbatim>\<open>undefined\<close>.
\<close>

definition getProp :: "failure \<Rightarrow> jsstring \<Rightarrow> jsval" where
  "getProp error k =
     (case map_of (own error) k of
        Some (enumerable, v) \<Rightarrow> v
      | None \<Rightarrow> getOwn (inherited error) k)"

text \<open>
  \<^verbatim>\<open>{ ...error }\<close> is a plain object with the own enumerable properties of \<open>error\<close>,
  in their order, and no others.
\<close>

definition spread :: "failure \<Rightarrow> jsobject" where
  "spread error = [(k, v). (k, enumerable, v) \<leftarrow> own error, enumerable]"

subsection \<open>The response interceptor\<close>

text \<open>
  A handler of the interceptor settles the promise of the request: it fulfils it with a
  value or rejects it with a value. A TypeError thrown inside the \<^verbatim>\<open>async\<close> handler
  would reject the promise with that TypeError.
\<close>

datatype outcome = Fulfilled jsval | Rejected jsval | RejectedTypeError

definition onFulfilled :: "jsval \<Rightarrow> browser \<Rightarrow> outcome \<times> browser" where
  "onFulfilled response b = (Fulfilled response, b)"

text \<open>
  \<^verbatim>\<open>{ ...error, message: m, errorCode: c }\<close> copies the own enumerable properties of
  the failure and then defines \<^verbatim>\<open>message\<close> and \<^verbatim>\<open>errorCode\<close>; \<^verbatim>\<open>error.response\<close> and
  \<^verbatim>\<open>error.message\<close> are reads of the failure itself. The handler is \<^verbatim>\<open>async\<close> and returns
  \<^verbatim>\<open>Promise.reject(customError)\<close>, so its promise is rejected with \<^verbatim>\<open>customError\<close>.
  \<^verbatim>\<open>const { data, status } = error.response\<close> reads both properties and would throw
  if \<^verbatim>\<open>error.response\<close> were \<^verbatim>\<open>undefined\<close> or \<^verbatim>\<open>null\<close>.
\<close>

definition networkErrorMessage :: jsstring where
  "networkErrorMessage = str ''Network error. Please check your API configuration.''"

definition onRejected :: "failure \<Rightarrow> browser \<Rightarrow> outcome \<times> browser" where
  "onRejected error b =
     (let response = getProp error (str ''response'') in
      if \<not> ToBoolean response then
        (let b' = b\<lparr>console_error := console_error b @
                     [[JSString (str ''Network error:''), getProp error (str ''message'')]]\<rparr>;
             customError =
               AList.update (str ''errorCode'') (JSString (str ''NETWORK_ERROR''))
                 (AList.update (str ''message'')
                    (logicalOr (getProp error (str ''message'')) (JSString networkErrorMessage))
                    (spread error))
         in (Rejected (JSObject customError), b'))
      else
        (case (getV response (str ''data''), getV response (str ''status'')) of
           (Some data, Some status) \<Rightarrow>
             (let b' = (if strictEqualsString data (str ''Unauthorized'') \<and> strictEqualsNumber status 401
                        then b\<lparr>location_href := location_href b @ [str ''/'']\<rparr>
                        else b);
                  customError =
                    AList.update (str ''errorCode'')
                      (logicalOr (optionalGet data (str ''errorCode'')) (JSString (str ''UNKNOWN_ERROR'')))
                      (spread error)
              in (Rejected (JSObject customError), b'))
         | _ \<Rightarrow> (RejectedTypeError, b)))"

text \<open>What a caller reads from the settled promise in its \<^verbatim>\<open>catch\<close>: a property of the
  value of the rejection.\<close>

definition rejectedProp :: "outcome \<Rightarrow> jsstring \<Rightarrow> jsval option" where
  "rejectedProp out k = (case out of Rejected v \<Rightarrow> getV v k | _ \<Rightarrow> None)"

definition isNonEmptyString :: "jsval \<Rightarrow> bool" where
  "isNonEmptyString v = (case v of JSString s \<Rightarrow> s \<noteq> [] | _ \<Rightarrow> False)"

text \<open>The browser before the module has run.\<close>

definition freshBrowser :: browser where
  "freshBrowser = \<lparr>console_error = [], location_href = []\<rparr>"

text \<open>The test of \<open>getBaseURL\<close> for a protocol, named for the lemmas below.\<close>

definition hasProtocol :: "jsstring \<Rightarrow> bool" where
  "hasProtocol t \<longleftrightarrow> startsWith t (str ''http://'') \<or> startsWith t (str ''https://'')"

text \<open>
  The \<^verbatim>\<open>errorCode\<close> field of the body of the response of a failure,
  \<^verbatim>\<open>error.response?.data?.errorCode\<close>: \<^verbatim>\<open>undefined\<close> when there is no response, no
  body or no such field.
\<close>

definition bodyErrorCode :: "failure \<Rightarrow> jsval" where
  "bodyErrorCode error =
     optionalGet (optionalGet (getProp error (str ''response'')) (str ''data'')) (str ''errorCode'')"

subsection \<open>Failures used as examples\<close>

text \<open>A failure all of whose properties are own and enumerable.\<close>

definition enumerableFailure :: "jsobject \<Rightarrow> failure" where
  "enumerableFailure ps = \<lparr>own = [(k, True, v). (k, v) \<leftarrow> ps], inherited = []\<rparr>"

text \<open>\<^verbatim>\<open>new Error("boom")\<close>: the message is own and not enumerable, the name is
  inherited from \<^verbatim>\<open>Error.prototype\<close>; there is no response.\<close>

definition errorInstanceFailure :: failure where
  "errorInstanceFailure =
     \<lparr>own = [(str ''message'', False, JSString (str ''boom''))],
      inherited = [(str ''name'', JSString (str ''Error'')), (str ''message'', JSString [])]\<rparr>"

text \<open>A failure without a response, as axios reports a refused connection.\<close>

definition networkFailure :: failure where
  "networkFailure = enumerableFailure
     [(str ''message'', JSString (str ''Network Error'')),
      (str ''code'', JSString (str ''ERR_NETWORK''))]"

text \<open>Status 401 with the text \<^verbatim>\<open>Unauthorized\<close> as body.\<close>

definition unauthorizedFailure :: failure where
  "unauthorizedFailure = enumerableFailure
     [(str ''message'', JSString (str ''Request failed with status code 401'')),
      (str ''response'', JSObject
         [(str ''data'', JSString (str ''Unauthorized'')),
          (str ''status'', JSNumber (Finite 401))])]"

text \<open>Status 400 with the body \<^verbatim>\<open>{ errorCode: "VALIDATION_FAILED" }\<close>.\<close>

definition validationFailure :: failure where
  "validationFailure = enumerableFailure
     [(str ''message'', JSString (str ''Request failed with status code 400'')),
      (str ''response'', JSObject
         [(str ''data'', JSObject [(str ''errorCode'', JSString (str ''VALIDATION_FAILED''))]),
          (str ''status'', JSNumber (Finite 400))])]"

text \<open>Status 500 with the body \<^verbatim>\<open>{ detail: "boom" }\<close>, which has no \<^verbatim>\<open>errorCode\<close>.\<close>

definition noCodeFailure :: failure where
  "noCodeFailure = enumerableFailure
     [(str ''message'', JSString (str ''Request failed with status code 500'')),
      (str ''response'', JSObject
         [(str ''data'', JSObject [(str ''detail'', JSString (str ''boom''))]),
          (str ''status'', JSNumber (Finite 500))])]"

text \<open>Status 400 with the body \<^verbatim>\<open>{ errorCode: "" }\<close>.\<close>

definition emptyCodeFailure :: failure where
  "emptyCodeFailure = enumerableFailure
     [(str ''message'', JSString (str ''Request failed with status code 400'')),
      (str ''response'', JSObject
         [(str ''data'', JSObject [(str ''errorCode'', JSString [])]),
          (str ''status'', JSNumber (Finite 400))])]"

text \<open>Status 400 with the body \<^verbatim>\<open>{ errorCode: 0 }\<close>.\<close>

definition zeroCodeFailure :: failure where
  "zeroCodeFailure = enumerableFailure
     [(str ''message'', JSString (str ''Request failed with status code 400'')),
      (str ''response'', JSObject
         [(str ''data'', JSObject [(str ''errorCode'', JSNumber (Finite 0))]),
          (str ''status'', JSNumber (Finite 400))])]"

text \<open>Status 500 with the body \<^verbatim>\<open>{ errorCode: 42 }\<close>.\<close>

definition numericCodeFailure :: failure where
  "numericCodeFailure = enumerableFailure
     [(str ''message'', JSString (str ''Request failed with status code 500'')),
      (str ''response'', JSObject
         [(str ''data'', JSObject [(str ''errorCode'', JSNumber (Finite 42))]),
          (str ''status'', JSNumber (Finite 500))])]"

section \<open>Properties of the string operations\<close>

lemma replaceTrailingSlash_eq:
  "replaceTrailingSlash s = (if s \<noteq> [] \<and> last s = slash then butlast s else s)"
  by (induction s) auto


lemma trim_Nil: "trim [] = []"
  by (simp add: trim_def trimStart_def trimEnd_def)

lemma last_trimEnd: "trimEnd s \<noteq> [] \<Longrightarrow> \<not> isTrimmed (last (trimEnd s))"
  unfolding trimEnd_def by (simp add: last_rev hd_dropWhile)

lemma trimEnd_id: "s \<noteq> [] \<Longrightarrow> \<not> isTrimmed (last s) \<Longrightarrow> trimEnd s = s"
  unfolding trimEnd_def by (cases s rule: rev_cases) auto

lemma trimStart_id: "s \<noteq> [] \<Longrightarrow> \<not> isTrimmed (hd s) \<Longrightarrow> trimStart s = s"
  unfolding trimStart_def by (cases s) auto

lemma trim_id: "s \<noteq> [] \<Longrightarrow> \<not> isTrimmed (hd s) \<Longrightarrow> \<not> isTrimmed (last s) \<Longrightarrow> trim s = s"
  by (simp add: trim_def trimStart_id trimEnd_id)

lemma last_trim: "trim s \<noteq> [] \<Longrightarrow> \<not> isTrimmed (last (trim s))"
  unfolding trim_def by (rule last_trimEnd)

lemma startsWith_butlast:
  "startsWith t p \<Longrightarrow> length p < length t \<Longrightarrow> startsWith (butlast t) p"
  by (simp add: startsWith_def butlast_conv_take)

lemma str_http: "str ''http://'' = [0x68, 0x74, 0x74, 0x70, 0x3A, slash, slash]"
  by (simp add: str_def slash_def)

lemma str_https: "str ''https://'' = [0x68, 0x74, 0x74, 0x70, 0x73, 0x3A, slash, slash]"
  by (simp add: str_def slash_def)

lemma not_trimmed_h: "\<not> isTrimmed 0x68"
  by (simp add: isTrimmed_def isWhiteSpace_def isLineTerminator_def)

lemma not_trimmed_slash: "\<not> isTrimmed slash"
  by (simp add: isTrimmed_def isWhiteSpace_def isLineTerminator_def slash_def)

lemma hasProtocol_hd: "hasProtocol t \<Longrightarrow> t \<noteq> [] \<and> hd t = 0x68"
  by (cases t) (auto simp: hasProtocol_def startsWith_def str_def)

lemma hasProtocol_butlast:
  assumes "hasProtocol t" "last t = slash" "last (butlast t) \<noteq> slash"
  shows "hasProtocol (butlast t)"
proof -
  have "length (str ''http://'') < length t" if "startsWith t (str ''http://'')"
  proof (rule ccontr)
    assume "\<not> length (str ''http://'') < length t"
    with that have "t = str ''http://''" by (simp add: startsWith_def)
    with assms(3) show False by (simp add: str_http)
  qed
  moreover have "length (str ''https://'') < length t" if "startsWith t (str ''https://'')"
  proof (rule ccontr)
    assume "\<not> length (str ''https://'') < length t"
    with that have "t = str ''https://''" by (simp add: startsWith_def)
    with assms(3) show False by (simp add: str_https)
  qed
  ultimately show ?thesis
    using assms(1) unfolding hasProtocol_def by (blast intro: startsWith_butlast)
qed

lemma trimEnd_append:
  assumes "p \<noteq> []" "\<not> isTrimmed (last p)"
  shows "trimEnd (p @ s) = p @ trimEnd s"
proof -
  from assms have p: "dropWhile isTrimmed (rev p) = rev p"
    by (cases p rule: rev_cases) simp_all
  show ?thesis
  proof (cases "\<forall>c\<in>set s. isTrimmed c")
    case True
    then have "dropWhile isTrimmed (rev s @ rev p) = dropWhile isTrimmed (rev p)"
      by (intro dropWhile_append2) simp
    moreover from True have "dropWhile isTrimmed (rev s) = []" by simp
    ultimately show ?thesis
      by (simp only: trimEnd_def rev_append p rev_rev_ident rev.simps append_Nil2)
  next
    case False
    then obtain c where "c \<in> set (rev s)" "\<not> isTrimmed c" by auto
    then have "dropWhile isTrimmed (rev s @ rev p) = dropWhile isTrimmed (rev s) @ rev p"
      by (rule dropWhile_append1)
    then show ?thesis by (simp add: trimEnd_def)
  qed
qed

lemma length_trimEnd_less: "s \<noteq> [] \<Longrightarrow> isTrimmed (last s) \<Longrightarrow> length (trimEnd s) < length s"
proof (cases s rule: rev_cases)
  case (snoc ys y)
  assume "isTrimmed (last s)"
  with snoc have "trimEnd s = rev (dropWhile isTrimmed (rev ys))" by (simp add: trimEnd_def)
  moreover have "length (dropWhile isTrimmed (rev ys)) \<le> length (rev ys)"
    by (rule length_dropWhile_le)
  ultimately show ?thesis using snoc by simp
qed simp

lemma length_replaceTrailingSlash: "length (replaceTrailingSlash s) \<le> length s"
  by (simp add: replaceTrailingSlash_eq)

lemma startsWith_length: "startsWith t p \<Longrightarrow> length p \<le> length t"
proof -
  assume "startsWith t p"
  then have "length (take (length p) t) = length p" by (simp only: startsWith_def)
  then show ?thesis by simp
qed

lemma hasProtocol_length: "hasProtocol t \<Longrightarrow> 7 \<le> length t"
  unfolding hasProtocol_def by (auto dest!: startsWith_length simp: str_def)

lemma startsWith_trimEnd:
  assumes "startsWith r p" "p \<noteq> []" "\<not> isTrimmed (last p)"
  shows "startsWith (trimEnd r) p"
proof -
  from assms(1) have "r = p @ drop (length p) r"
    by (metis append_take_drop_id startsWith_def)
  then have "trimEnd r = p @ trimEnd (drop (length p) r)"
    using trimEnd_append [OF assms(2,3)] by metis
  then show ?thesis by (simp add: startsWith_def)
qed

lemma hasProtocol_trimEnd: "hasProtocol r \<Longrightarrow> hasProtocol (trimEnd r)"
  unfolding hasProtocol_def
  using not_trimmed_slash
  by (auto intro!: startsWith_trimEnd simp: str_http str_https)

section \<open>What the response interceptor does to a failure\<close>

lemma getOwn_update_same: "getOwn (AList.update k v ps) k = v"
  by (simp add: getOwn_def update_conv')

lemma getOwn_update_other: "k' \<noteq> k \<Longrightarrow> getOwn (AList.update k v ps) k' = getOwn ps k'"
  by (simp add: getOwn_def update_conv')

lemma getV_truthy: "ToBoolean v \<Longrightarrow> getV v k = Some (optionalGet v k)"
  by (cases v) (simp_all add: optionalGet_def)

lemma getV_truthy_iff: "ToBoolean v \<Longrightarrow> getV v k = Some x \<longleftrightarrow> optionalGet v k = x"
  by (cases v) (simp_all add: optionalGet_def)

lemma message_neq_errorCode: "str ''message'' \<noteq> str ''errorCode''"
  by (simp add: str_def)

lemma UNKNOWN_nonempty: "isNonEmptyString (JSString (str ''UNKNOWN_ERROR''))"
  by (simp add: isNonEmptyString_def str_def)

lemma NETWORK_nonempty: "isNonEmptyString (JSString (str ''NETWORK_ERROR''))"
  by (simp add: isNonEmptyString_def str_def)

text \<open>The two branches of the handler. With a response, the reads of \<^verbatim>\<open>data\<close> and
  \<^verbatim>\<open>status\<close> do not throw.\<close>

lemma onRejected_no_response:
  assumes "\<not> ToBoolean (getProp error (str ''response''))"
  shows "onRejected error b =
    (Rejected (JSObject
       (AList.update (str ''errorCode'') (JSString (str ''NETWORK_ERROR''))
         (AList.update (str ''message'')
            (logicalOr (getProp error (str ''message'')) (JSString networkErrorMessage))
            (spread error)))),
     b\<lparr>console_error := console_error b @
          [[JSString (str ''Network error:''), getProp error (str ''message'')]]\<rparr>)"
  using assms by (simp add: onRejected_def Let_def)

lemma onRejected_response:
  assumes "ToBoolean (getProp error (str ''response''))"
  shows "onRejected error b =
    (Rejected (JSObject
       (AList.update (str ''errorCode'')
          (logicalOr (bodyErrorCode error) (JSString (str ''UNKNOWN_ERROR'')))
          (spread error))),
     if optionalGet (getProp error (str ''response'')) (str ''data'') = JSString (str ''Unauthorized'')
        \<and> optionalGet (getProp error (str ''response'')) (str ''status'') = JSNumber (Finite 401)
     then b\<lparr>location_href := location_href b @ [str ''/'']\<rparr> else b)"
  using assms
  by (simp add: onRejected_def Let_def getV_truthy bodyErrorCode_def
      strictEqualsString_def strictEqualsNumber_def)

lemma logicalOr_optionalGet_cases:
  "logicalOr (optionalGet data k) d =
     (case data of
        JSObject body \<Rightarrow>
          (case map_of body k of Some v \<Rightarrow> if ToBoolean v then v else d | None \<Rightarrow> d)
      | _ \<Rightarrow> d)"
proof (cases data)
  case (JSObject body)
  then show ?thesis
    by (cases "map_of body k") (simp_all add: optionalGet_def getOwn_def logicalOr_def)
qed (simp_all add: optionalGet_def logicalOr_def)

lemma bodyErrorCode_string:
  "optionalGet (getProp error (str ''response'')) (str ''data'') = JSString s
   \<Longrightarrow> logicalOr (bodyErrorCode error) d = d"
  by (simp add: bodyErrorCode_def optionalGet_def logicalOr_def)

text \<open>
  C1, as stated, fails: when the body of the response is \<^verbatim>\<open>{ errorCode: 42 }\<close>, the
  \<^verbatim>\<open>errorCode\<close> of the rejection is the number 42, which is not a string.
\<close>

theorem onRejected_numeric_errorCode:
  "rejectedProp (fst (onRejected numericCodeFailure freshBrowser)) (str ''errorCode'')
     = Some (JSNumber (Finite 42))
   \<and> \<not> isNonEmptyString (JSNumber (Finite 42))"
  by code_simp

text \<open>
  C1, amended. For every failure, with or without a response, the handler rejects, and
  the \<^verbatim>\<open>errorCode\<close> of the value of the rejection is truthy: it is a string that is not
  empty, or else it is the value of the \<^verbatim>\<open>errorCode\<close> field of the body of the response
  (a truthy value that is not a string). The theorem also gives the value of the
  rejection: with a response it is the copy of the own enumerable properties of the
  failure with \<^verbatim>\<open>errorCode\<close> defined; without one, \<^verbatim>\<open>message\<close> is defined first, as the
  message that the failure reads or else the fixed text.
\<close>

theorem onRejected_rejects_with_errorCode:
  "\<exists>c. ToBoolean c
      \<and> (isNonEmptyString c \<or> c = bodyErrorCode error)
      \<and> rejectedProp (fst (onRejected error b)) (str ''errorCode'') = Some c
      \<and> fst (onRejected error b) = Rejected (JSObject
           (AList.update (str ''errorCode'') c
              (if ToBoolean (getProp error (str ''response'')) then spread error
               else AList.update (str ''message'')
                      (logicalOr (getProp error (str ''message'')) (JSString networkErrorMessage))
                      (spread error))))"
proof (cases "ToBoolean (getProp error (str ''response''))")
  case True
  let ?c = "logicalOr (bodyErrorCode error) (JSString (str ''UNKNOWN_ERROR''))"
  have "ToBoolean ?c" by (simp add: logicalOr_def str_def)
  moreover have "isNonEmptyString ?c \<or> ?c = bodyErrorCode error"
    using UNKNOWN_nonempty by (simp add: logicalOr_def)
  ultimately show ?thesis
    using onRejected_response [OF True, of b] True
    by (simp add: rejectedProp_def getOwn_update_same)
next
  case False
  let ?c = "JSString (str ''NETWORK_ERROR'')"
  have "ToBoolean ?c" by (simp add: str_def)
  then show ?thesis
    using onRejected_no_response [OF False, of b] NETWORK_nonempty False
    by (simp add: rejectedProp_def getOwn_update_same)
qed

text \<open>
  C2, as stated, fails: the bodies \<^verbatim>\<open>{ errorCode: "" }\<close> and \<^verbatim>\<open>{ errorCode: 0 }\<close> have
  the field, and the \<^verbatim>\<open>errorCode\<close> of the rejection is \<^verbatim>\<open>UNKNOWN_ERROR\<close>, not the value
  of the field.
\<close>

theorem onRejected_falsy_errorCode_unknown:
  "bodyErrorCode emptyCodeFailure = JSString []
   \<and> rejectedProp (fst (onRejected emptyCodeFailure freshBrowser)) (str ''errorCode'')
     = Some (JSString (str ''UNKNOWN_ERROR''))
   \<and> JSString (str ''UNKNOWN_ERROR'') \<noteq> JSString []
   \<and> bodyErrorCode zeroCodeFailure = JSNumber (Finite 0)
   \<and> rejectedProp (fst (onRejected zeroCodeFailure freshBrowser)) (str ''errorCode'')
     = Some (JSString (str ''UNKNOWN_ERROR''))"
  by code_simp

text \<open>
  C2, amended. For every failure with a response, the \<^verbatim>\<open>errorCode\<close> of the rejection
  is the value of the \<^verbatim>\<open>errorCode\<close> field of the body when the body is an object that
  has the field with a truthy value (a string that is not empty, for one), and
  \<^verbatim>\<open>UNKNOWN_ERROR\<close> otherwise: when the field is absent, when its value is falsy (the
  empty string, 0, \<^verbatim>\<open>false\<close>, \<^verbatim>\<open>null\<close>), and when the body is not an object.
\<close>

theorem onRejected_errorCode_of_body:
  assumes "ToBoolean (getProp error (str ''response''))"
  shows "rejectedProp (fst (onRejected error b)) (str ''errorCode'') =
           Some (case optionalGet (getProp error (str ''response'')) (str ''data'') of
                   JSObject body \<Rightarrow>
                     (case map_of body (str ''errorCode'') of
                        Some v \<Rightarrow> if ToBoolean v then v else JSString (str ''UNKNOWN_ERROR'')
                      | None \<Rightarrow> JSString (str ''UNKNOWN_ERROR''))
                 | _ \<Rightarrow> JSString (str ''UNKNOWN_ERROR''))"
proof -
  have "rejectedProp (fst (onRejected error b)) (str ''errorCode'') =
          Some (logicalOr (bodyErrorCode error) (JSString (str ''UNKNOWN_ERROR'')))"
    using onRejected_response [OF assms, of b] by (simp add: rejectedProp_def getOwn_update_same)
  then show ?thesis
    by (simp only: bodyErrorCode_def logicalOr_optionalGet_cases)
qed

text \<open>The examples of the specification: the body \<^verbatim>\<open>{ errorCode: "VALIDATION_FAILED" }\<close>
  gives \<^verbatim>\<open>VALIDATION_FAILED\<close>, a body without the field gives \<^verbatim>\<open>UNKNOWN_ERROR\<close>.\<close>

theorem onRejected_errorCode_of_body_witness:
  "ToBoolean (getProp validationFailure (str ''response''))
   \<and> rejectedProp (fst (onRejected validationFailure freshBrowser)) (str ''errorCode'')
     = Some (JSString (str ''VALIDATION_FAILED''))
   \<and> ToBoolean (getProp noCodeFailure (str ''response''))
   \<and> rejectedProp (fst (onRejected noCodeFailure freshBrowser)) (str ''errorCode'')
     = Some (JSString (str ''UNKNOWN_ERROR''))"
proof -
  have 1: "ToBoolean (getProp validationFailure (str ''response''))" by code_simp
  have 2: "ToBoolean (getProp noCodeFailure (str ''response''))" by code_simp
  have 3: "optionalGet (getProp validationFailure (str ''response'')) (str ''data'')
             = JSObject [(str ''errorCode'', JSString (str ''VALIDATION_FAILED''))]"
    by code_simp
  have 4: "optionalGet (getProp noCodeFailure (str ''response'')) (str ''data'')
             = JSObject [(str ''detail'', JSString (str ''boom''))]"
    by code_simp
  show ?thesis
    using 1 2 onRejected_errorCode_of_body [OF 1, of freshBrowser]
      onRejected_errorCode_of_body [OF 2, of freshBrowser]
    unfolding 3 4 by (simp add: str_def)
qed

text \<open>
  C3. For every failure without a response (the property is absent, or holds a falsy
  value), the handler calls \<^verbatim>\<open>console.error\<close> once, with \<^verbatim>\<open>Network error:\<close> and the
  message of the failure, navigates nowhere, and rejects with \<^verbatim>\<open>errorCode\<close>
  \<^verbatim>\<open>NETWORK_ERROR\<close> and with the message of the failure when it has one (a truthy one:
  a string that is not empty), else with the fixed text of \<open>networkErrorMessage\<close>.
\<close>

theorem onRejected_network_error:
  assumes "\<not> ToBoolean (getProp error (str ''response''))"
  shows "snd (onRejected error b) =
           b\<lparr>console_error := console_error b @
               [[JSString (str ''Network error:''), getProp error (str ''message'')]]\<rparr>
       \<and> rejectedProp (fst (onRejected error b)) (str ''errorCode'')
           = Some (JSString (str ''NETWORK_ERROR''))
       \<and> rejectedProp (fst (onRejected error b)) (str ''message'')
           = Some (if ToBoolean (getProp error (str ''message''))
                   then getProp error (str ''message'')
                   else JSString networkErrorMessage)"
  using onRejected_no_response [OF assms, of b] message_neq_errorCode
  by (simp add: rejectedProp_def getOwn_update_same getOwn_update_other logicalOr_def)

text \<open>Two failures without a response: an error whose message is enumerable, and
  \<^verbatim>\<open>new Error("boom")\<close>, whose message is not.\<close>

theorem onRejected_network_error_witness:
  "\<not> ToBoolean (getProp networkFailure (str ''response''))
   \<and> snd (onRejected networkFailure freshBrowser) =
       freshBrowser\<lparr>console_error :=
         [[JSString (str ''Network error:''), JSString (str ''Network Error'')]]\<rparr>
   \<and> rejectedProp (fst (onRejected networkFailure freshBrowser)) (str ''errorCode'')
       = Some (JSString (str ''NETWORK_ERROR''))
   \<and> rejectedProp (fst (onRejected networkFailure freshBrowser)) (str ''message'')
       = Some (JSString (str ''Network Error''))
   \<and> \<not> ToBoolean (getProp errorInstanceFailure (str ''response''))
   \<and> snd (onRejected errorInstanceFailure freshBrowser) =
       freshBrowser\<lparr>console_error :=
         [[JSString (str ''Network error:''), JSString (str ''boom'')]]\<rparr>
   \<and> rejectedProp (fst (onRejected errorInstanceFailure freshBrowser)) (str ''errorCode'')
       = Some (JSString (str ''NETWORK_ERROR''))
   \<and> rejectedProp (fst (onRejected errorInstanceFailure freshBrowser)) (str ''message'')
       = Some (JSString (str ''boom''))"
proof -
  have 1: "\<not> ToBoolean (getProp networkFailure (str ''response''))" by code_simp
  have 2: "getProp networkFailure (str ''message'') = JSString (str ''Network Error'')"
    by code_simp
  have 3: "str ''Network Error'' \<noteq> []" by (simp add: str_def)
  have 4: "console_error freshBrowser = []" by (simp add: freshBrowser_def)
  have 5: "\<not> ToBoolean (getProp errorInstanceFailure (str ''response''))" by code_simp
  have 6: "getProp errorInstanceFailure (str ''message'') = JSString (str ''boom'')"
    by code_simp
  have 7: "str ''boom'' \<noteq> []" by (simp add: str_def)
  show ?thesis
    using 1 5 onRejected_network_error [OF 1, of freshBrowser]
      onRejected_network_error [OF 5, of freshBrowser]
    by (simp add: 2 3 4 6 7)
qed

text \<open>
  C4. For every failure with a response: when the body is the string
  \<^verbatim>\<open>Unauthorized\<close> and the status is the number 401, the handler assigns \<^verbatim>\<open>/\<close> to
  \<^verbatim>\<open>window.location.href\<close> once, and still rejects, with \<^verbatim>\<open>errorCode\<close>
  \<^verbatim>\<open>UNKNOWN_ERROR\<close> (a string has no \<^verbatim>\<open>errorCode\<close> field); in every other case the
  browser is left as it was, so no navigation occurs.
\<close>

theorem onRejected_unauthorized_navigation:
  assumes "ToBoolean (getProp error (str ''response''))"
  shows "(getV (getProp error (str ''response'')) (str ''data'') = Some (JSString (str ''Unauthorized''))
          \<and> getV (getProp error (str ''response'')) (str ''status'') = Some (JSNumber (Finite 401))
          \<longrightarrow> snd (onRejected error b) = b\<lparr>location_href := location_href b @ [str ''/'']\<rparr>
            \<and> rejectedProp (fst (onRejected error b)) (str ''errorCode'')
                = Some (JSString (str ''UNKNOWN_ERROR'')))
       \<and> (\<not> (getV (getProp error (str ''response'')) (str ''data'') = Some (JSString (str ''Unauthorized''))
          \<and> getV (getProp error (str ''response'')) (str ''status'') = Some (JSNumber (Finite 401)))
          \<longrightarrow> snd (onRejected error b) = b)"
proof (cases "optionalGet (getProp error (str ''response'')) (str ''data'') = JSString (str ''Unauthorized'')
        \<and> optionalGet (getProp error (str ''response'')) (str ''status'') = JSNumber (Finite 401)")
  case True
  then have "logicalOr (bodyErrorCode error) (JSString (str ''UNKNOWN_ERROR''))
               = JSString (str ''UNKNOWN_ERROR'')"
    by (simp add: bodyErrorCode_string)
  with True show ?thesis
    using onRejected_response [OF assms, of b]
    by (simp add: getV_truthy_iff [OF assms] rejectedProp_def getOwn_update_same)
next
  case False
  then show ?thesis
    using onRejected_response [OF assms, of b]
    by (auto simp add: getV_truthy_iff [OF assms])
qed

theorem onRejected_unauthorized_navigation_witness:
  "ToBoolean (getProp unauthorizedFailure (str ''response''))
   \<and> snd (onRejected unauthorizedFailure freshBrowser) = freshBrowser\<lparr>location_href := [str ''/'']\<rparr>
   \<and> rejectedProp (fst (onRejected unauthorizedFailure freshBrowser)) (str ''errorCode'')
       = Some (JSString (str ''UNKNOWN_ERROR''))
   \<and> ToBoolean (getProp validationFailure (str ''response''))
   \<and> snd (onRejected validationFailure freshBrowser) = freshBrowser"
proof -
  have 1: "ToBoolean (getProp unauthorizedFailure (str ''response''))" by code_simp
  have 2: "getV (getProp unauthorizedFailure (str ''response'')) (str ''data'')
             = Some (JSString (str ''Unauthorized''))
         \<and> getV (getProp unauthorizedFailure (str ''response'')) (str ''status'')
             = Some (JSNumber (Finite 401))"
    by code_simp
  have 3: "ToBoolean (getProp validationFailure (str ''response''))" by code_simp
  have 4: "\<not> (getV (getProp validationFailure (str ''response'')) (str ''data'')
             = Some (JSString (str ''Unauthorized''))
         \<and> getV (getProp validationFailure (str ''response'')) (str ''status'')
             = Some (JSNumber (Finite 401)))"
    by code_simp
  show ?thesis
    using 1 2 3 4 onRejected_unauthorized_navigation [OF 1, of freshBrowser]
      onRejected_unauthorized_navigation [OF 3, of freshBrowser]
    by (simp add: freshBrowser_def)
qed

section \<open>What the resolution of the base URL returns\<close>

lemma getBaseURL_protocol:
  assumes "VITE_API_BASE_URL e = Some envURL" "hasProtocol (trim envURL)"
  shows "getBaseURL e b = (replaceTrailingSlash (trim envURL), b)"
proof -
  from assms(2) have "trim envURL \<noteq> []" by (simp add: hasProtocol_hd)
  then have "envURL \<noteq> []" using trim_Nil by auto
  with assms show ?thesis by (simp add: getBaseURL_def hasProtocol_def Let_def)
qed

lemma getBaseURL_no_protocol:
  assumes "VITE_API_BASE_URL e = Some envURL" "envURL \<noteq> []" "\<not> hasProtocol (trim envURL)"
  shows "getBaseURL e b =
    (replaceTrailingSlash ((if PROD_flag e then str ''https://'' else str ''http://'') @ trim envURL), b)"
  using assms by (simp add: getBaseURL_def hasProtocol_def Let_def)

text \<open>A resolved URL that resolves to itself, and two kinds that do not.\<close>

lemma resolved_fixed:
  assumes hp: "hasProtocol r" and nt: "\<not> isTrimmed (last r)" and ns: "last r \<noteq> slash"
    and e: "VITE_API_BASE_URL e = Some r"
  shows "getBaseURL e b = (r, b)"
proof -
  from hp have r: "r \<noteq> []" "hd r = 0x68" by (simp_all add: hasProtocol_hd)
  then have "\<not> isTrimmed (hd r)" by (simp add: not_trimmed_h)
  with r nt have t: "trim r = r" by (simp add: trim_id)
  from getBaseURL_protocol [OF e, of b] hp t ns show ?thesis
    by (simp add: replaceTrailingSlash_eq)
qed

lemma not_fixed_slash:
  assumes e: "VITE_API_BASE_URL e = Some r" and r: "r \<noteq> []" "hd r = 0x68" "last r = slash"
  shows "fst (getBaseURL e b) \<noteq> r"
proof -
  from r have t: "trim r = r" by (simp add: trim_id not_trimmed_h not_trimmed_slash)
  show ?thesis
  proof (cases "hasProtocol r")
    case True
    with getBaseURL_protocol [OF e, of b] t r
    have "length (fst (getBaseURL e b)) = length r - 1"
      by (simp add: replaceTrailingSlash_eq)
    with r(1) show ?thesis by (metis diff_less length_greater_0_conv less_irrefl zero_less_one)
  next
    case False
    let ?p = "if PROD_flag e then str ''https://'' else str ''http://''"
    from getBaseURL_no_protocol [OF e r(1), of b] False t r
    have "fst (getBaseURL e b) = butlast (?p @ r)"
      by (simp add: replaceTrailingSlash_eq)
    then have "length (fst (getBaseURL e b)) = length ?p + length r - 1" by simp
    moreover have "7 \<le> length ?p" by (simp add: str_def)
    ultimately have "length r < length (fst (getBaseURL e b))" using r(1)
      by (cases r) simp_all
    then show ?thesis by auto
  qed
qed

lemma not_fixed_space:
  assumes e: "VITE_API_BASE_URL e = Some r" and hp: "hasProtocol r" and ws: "isTrimmed (last r)"
  shows "fst (getBaseURL e b) \<noteq> r"
proof -
  from hp have r: "r \<noteq> []" "hd r = 0x68" by (simp_all add: hasProtocol_hd)
  then have t: "trim r = trimEnd r" by (simp add: trim_def trimStart_id not_trimmed_h)
  from hp have "hasProtocol (trim r)" unfolding t by (rule hasProtocol_trimEnd)
  from getBaseURL_protocol [OF e this, of b]
  have "length (fst (getBaseURL e b)) \<le> length (trimEnd r)"
    by (simp add: t length_replaceTrailingSlash)
  also have "\<dots> < length r" using r(1) ws by (rule length_trimEnd_less)
  finally show ?thesis by auto
qed

text \<open>
  C5, as stated, fails: \<^verbatim>\<open>https://api.example.com//\<close> resolves to
  \<^verbatim>\<open>https://api.example.com/\<close>, which resolves to \<^verbatim>\<open>https://api.example.com\<close>. One
  slash is removed by each resolution.
\<close>

theorem getBaseURL_double_slash_not_idempotent:
  "fst (getBaseURL \<lparr>VITE_API_BASE_URL = Some (fst (getBaseURL
            \<lparr>VITE_API_BASE_URL = Some (str ''https://api.example.com//''),
             PROD_flag = True, DEV_flag = False\<rparr> freshBrowser)),
          PROD_flag = True, DEV_flag = False\<rparr> freshBrowser)
   \<noteq> fst (getBaseURL
            \<lparr>VITE_API_BASE_URL = Some (str ''https://api.example.com//''),
             PROD_flag = True, DEV_flag = False\<rparr> freshBrowser)"
  by code_simp

text \<open>
  C5, amended. For an environment string that, trimmed, begins with \<^verbatim>\<open>http://\<close> or
  \<^verbatim>\<open>https://\<close>, resolving the resolved value (with the same flags) gives the resolved
  value again exactly when the trimmed string does not end in a slash that follows
  another slash or a white space or line terminator. (The bare protocols \<^verbatim>\<open>http://\<close>
  and \<^verbatim>\<open>https://\<close> end in two slashes.)
\<close>

theorem getBaseURL_idempotent_iff:
  assumes "VITE_API_BASE_URL e = Some envURL"
    and "startsWith (trim envURL) (str ''http://'') \<or> startsWith (trim envURL) (str ''https://'')"
  shows "fst (getBaseURL (e\<lparr>VITE_API_BASE_URL := Some (fst (getBaseURL e b))\<rparr>) b')
           = fst (getBaseURL e b)
         \<longleftrightarrow> (last (trim envURL) = slash \<longrightarrow>
                last (butlast (trim envURL)) \<noteq> slash \<and> \<not> isTrimmed (last (butlast (trim envURL))))"
proof -
  let ?t = "trim envURL"
  let ?r = "fst (getBaseURL e b)"
  let ?e' = "e\<lparr>VITE_API_BASE_URL := Some ?r\<rparr>"
  from assms(2) have hp: "hasProtocol ?t" by (simp add: hasProtocol_def)
  then have ne: "?t \<noteq> []" and hd: "hd ?t = 0x68" and len: "7 \<le> length ?t"
    by (simp_all add: hasProtocol_hd hasProtocol_length)
  have r: "?r = (if last ?t = slash then butlast ?t else ?t)"
    using getBaseURL_protocol [OF assms(1) hp, of b] ne by (simp add: replaceTrailingSlash_eq)
  have e': "VITE_API_BASE_URL ?e' = Some ?r" by simp
  show ?thesis
  proof (cases "last ?t = slash")
    case False
    with hp last_trim [OF ne] r
    have "hasProtocol ?r \<and> \<not> isTrimmed (last ?r) \<and> last ?r \<noteq> slash" by simp
    then have "getBaseURL ?e' b' = (?r, b')" using e' by (intro resolved_fixed) simp_all
    with False show ?thesis by simp
  next
    case True
    then have rb: "?r = butlast ?t" using r by simp
    from len have bne: "butlast ?t \<noteq> []" by (cases ?t rule: rev_cases) auto
    from len hd have bhd: "hd (butlast ?t) = 0x68"
      by (cases ?t) (auto split: if_splits)
    consider (slash) "last (butlast ?t) = slash"
      | (space) "last (butlast ?t) \<noteq> slash" "isTrimmed (last (butlast ?t))"
      | (ok) "last (butlast ?t) \<noteq> slash" "\<not> isTrimmed (last (butlast ?t))"
      by blast
    then show ?thesis
    proof cases
      case slash
      from not_fixed_slash [OF e', of b'] bne bhd slash rb
      have "fst (getBaseURL ?e' b') \<noteq> ?r" by simp
      with True slash show ?thesis by simp
    next
      case space
      from hasProtocol_butlast [OF hp True space(1)] rb have "hasProtocol ?r" by simp
      from not_fixed_space [OF e' this, of b'] space(2) rb
      have "fst (getBaseURL ?e' b') \<noteq> ?r" by simp
      with True space show ?thesis by simp
    next
      case ok
      from hasProtocol_butlast [OF hp True ok(1)] ok rb
      have "hasProtocol ?r \<and> \<not> isTrimmed (last ?r) \<and> last ?r \<noteq> slash" by simp
      then have "getBaseURL ?e' b' = (?r, b')" using e' by (intro resolved_fixed) simp_all
      with True ok show ?thesis by simp
    qed
  qed
qed

theorem getBaseURL_idempotent_iff_witness:
  "fst (getBaseURL \<lparr>VITE_API_BASE_URL = Some (fst (getBaseURL
            \<lparr>VITE_API_BASE_URL = Some (str '' https://api.example.com/ ''),
             PROD_flag = True, DEV_flag = False\<rparr> freshBrowser)),
          PROD_flag = True, DEV_flag = False\<rparr> freshBrowser)
   = fst (getBaseURL
            \<lparr>VITE_API_BASE_URL = Some (str '' https://api.example.com/ ''),
             PROD_flag = True, DEV_flag = False\<rparr> freshBrowser)"
proof -
  let ?u = "str '' https://api.example.com/ ''"
  let ?e = "\<lparr>VITE_API_BASE_URL = Some ?u, PROD_flag = True, DEV_flag = False\<rparr>"
  have 1: "VITE_API_BASE_URL ?e = Some ?u" by simp
  have 2: "startsWith (trim ?u) (str ''http://'') \<or> startsWith (trim ?u) (str ''https://'')"
    by code_simp
  have 3: "last (trim ?u) = slash \<longrightarrow>
           last (butlast (trim ?u)) \<noteq> slash \<and> \<not> isTrimmed (last (butlast (trim ?u)))"
    by code_simp
  show ?thesis
    using getBaseURL_idempotent_iff [OF 1 2, of freshBrowser freshBrowser] 3 by simp
qed

text \<open>
  C6. When the environment string, trimmed, begins with \<^verbatim>\<open>http://\<close> or
  \<^verbatim>\<open>https://\<close>, the resolved base URL is the trimmed string without its last code
  unit if that is a slash, and the trimmed string itself otherwise; nothing is logged.
  (Such a string is not empty, so it is present.)
\<close>

theorem getBaseURL_with_protocol:
  assumes "VITE_API_BASE_URL e = Some envURL"
    and "startsWith (trim envURL) (str ''http://'') \<or> startsWith (trim envURL) (str ''https://'')"
  shows "getBaseURL e b =
           (if last (trim envURL) = slash then butlast (trim envURL) else trim envURL, b)"
proof -
  from assms(2) have hp: "hasProtocol (trim envURL)" by (simp add: hasProtocol_def)
  then have "trim envURL \<noteq> []" by (simp add: hasProtocol_hd)
  with getBaseURL_protocol [OF assms(1) hp] show ?thesis
    by (simp add: replaceTrailingSlash_eq)
qed

text \<open>The example of the specification: \<^verbatim>\<open>"https://api.example.com/"\<close> in a production
  build resolves to \<^verbatim>\<open>"https://api.example.com"\<close>.\<close>

theorem getBaseURL_with_protocol_witness:
  "getBaseURL \<lparr>VITE_API_BASE_URL = Some (str ''https://api.example.com/''),
               PROD_flag = True, DEV_flag = False\<rparr> freshBrowser
     = (str ''https://api.example.com'', freshBrowser)"
proof -
  let ?u = "str ''https://api.example.com/''"
  let ?e = "\<lparr>VITE_API_BASE_URL = Some ?u, PROD_flag = True, DEV_flag = False\<rparr>"
  have 1: "VITE_API_BASE_URL ?e = Some ?u" by simp
  have 2: "startsWith (trim ?u) (str ''http://'') \<or> startsWith (trim ?u) (str ''https://'')"
    by code_simp
  have 3: "(if last (trim ?u) = slash then butlast (trim ?u) else trim ?u)
             = str ''https://api.example.com''"
    by code_simp
  show ?thesis using getBaseURL_with_protocol [OF 1 2, of freshBrowser] unfolding 3 .
qed

text \<open>
  C7. When the environment string is present (not empty) and, trimmed, begins with
  neither \<^verbatim>\<open>http://\<close> nor \<^verbatim>\<open>https://\<close>, the resolved base URL is \<^verbatim>\<open>https://\<close> in a
  production build and \<^verbatim>\<open>http://\<close> otherwise, followed by the trimmed string, without
  the last code unit of the whole if that is a slash; nothing is logged.
\<close>

theorem getBaseURL_without_protocol:
  assumes "VITE_API_BASE_URL e = Some envURL" and "envURL \<noteq> []"
    and "\<not> startsWith (trim envURL) (str ''http://'')"
    and "\<not> startsWith (trim envURL) (str ''https://'')"
  shows "getBaseURL e b =
           (let prefixed = (if PROD_flag e then str ''https://'' else str ''http://'') @ trim envURL
            in if last prefixed = slash then butlast prefixed else prefixed, b)"
proof -
  from assms(3,4) have "\<not> hasProtocol (trim envURL)" by (simp add: hasProtocol_def)
  from getBaseURL_no_protocol [OF assms(1,2) this] show ?thesis
    by (simp add: replaceTrailingSlash_eq Let_def str_def)
qed

text \<open>The example of the specification: \<^verbatim>\<open>"api.example.com"\<close> in a development build
  resolves to \<^verbatim>\<open>"http://api.example.com"\<close>.\<close>

theorem getBaseURL_without_protocol_witness:
  "getBaseURL \<lparr>VITE_API_BASE_URL = Some (str ''api.example.com''),
               PROD_flag = False, DEV_flag = True\<rparr> freshBrowser
     = (str ''http://api.example.com'', freshBrowser)"
proof -
  let ?u = "str ''api.example.com''"
  let ?e = "\<lparr>VITE_API_BASE_URL = Some ?u, PROD_flag = False, DEV_flag = True\<rparr>"
  have 1: "VITE_API_BASE_URL ?e = Some ?u" by simp
  have 2: "?u \<noteq> []" by code_simp
  have 3: "\<not> startsWith (trim ?u) (str ''http://'')" by code_simp
  have 4: "\<not> startsWith (trim ?u) (str ''https://'')" by code_simp
  have 5: "(let prefixed = (if PROD_flag ?e then str ''https://'' else str ''http://'') @ trim ?u
            in if last prefixed = slash then butlast prefixed else prefixed)
             = str ''http://api.example.com''"
    by code_simp
  show ?thesis using getBaseURL_without_protocol [OF 1 2 3 4, of freshBrowser] unfolding 5 .
qed

text \<open>
  C8. Without an environment string (\<^verbatim>\<open>undefined\<close>, or the empty string, which
  \<^verbatim>\<open>if (envURL)\<close> takes for absent) and in a production build, \<open>getBaseURL\<close>
  returns the empty string and calls \<^verbatim>\<open>console.error\<close> once, with the diagnostic that
  names \<^verbatim>\<open>VITE_API_BASE_URL\<close> as not set; it returns, so it does not throw.
\<close>

theorem getBaseURL_absent_production:
  "getBaseURL \<lparr>VITE_API_BASE_URL = None, PROD_flag = True, DEV_flag = d\<rparr> b
     = ([], b\<lparr>console_error := console_error b @ [[JSString missingBaseURLMessage]]\<rparr>)
   \<and> getBaseURL \<lparr>VITE_API_BASE_URL = Some [], PROD_flag = True, DEV_flag = d\<rparr> b
     = ([], b\<lparr>console_error := console_error b @ [[JSString missingBaseURLMessage]]\<rparr>)
   \<and> (\<exists>u v. missingBaseURLMessage = u @ str ''VITE_API_BASE_URL is not set'' @ v)"
proof -
  have "missingBaseURLMessage = [0x274C, 0x20] @ str ''VITE_API_BASE_URL is not set'' @
     (str '' in production environment!'' @ [0x000A] @
     str ''Please set it in your Vercel project settings:'' @ [0x000A] @
     str ''Settings '' @ [0x2192] @ str '' Environment Variables '' @ [0x2192] @
     str '' Add VITE_API_BASE_URL'' @ [0x000A] @
     str ''Example value: https://task-manager-l2ug.onrender.com/api'')"
    by (simp add: missingBaseURLMessage_def str_def)
  then have "\<exists>u v. missingBaseURLMessage = u @ str ''VITE_API_BASE_URL is not set'' @ v"
    by blast
  then show ?thesis by (simp add: getBaseURL_def fallbackBaseURL_def)
qed

text \<open>
  C9. Without an environment string and in a build that is not a production build,
  \<open>getBaseURL\<close> returns \<^verbatim>\<open>http://localhost:4000/api\<close> and logs nothing.
\<close>

theorem getBaseURL_absent_development:
  "getBaseURL \<lparr>VITE_API_BASE_URL = None, PROD_flag = False, DEV_flag = d\<rparr> b
     = (str ''http://localhost:4000/api'', b)
   \<and> getBaseURL \<lparr>VITE_API_BASE_URL = Some [], PROD_flag = False, DEV_flag = d\<rparr> b
     = (str ''http://localhost:4000/api'', b)"
  by (simp add: getBaseURL_def fallbackBaseURL_def)




end
